theory Spec2Isabelle
  imports
    Complex_Main
    "HOL-Library.Char_ord"
    "HOL-Library.List_Lexorder"
    "HOL-Library.Product_Lexorder"
    "HOL-Library.Log_Nat"
    "HOL-Library.Multiset"
begin

section \<open>Customer analysis: frequency/recency segments and monetary value\<close>

text \<open>
  A shallow embedding of \<^verbatim>\<open>FreRecAnalysis.py\<close> (class \<^verbatim>\<open>FrequencyRecency\<close>) and
  \<^verbatim>\<open>MVAnalysis.py\<close> (class \<^verbatim>\<open>MonetaryValue\<close>).

  Conventions.
  \<^item> A pandas column is a list of cells. The transaction table is a record of its
    columns; a derived table with a fixed set of columns is a list of rows (tuples).
    Text is \<^typ>\<open>string\<close>; characters are bytes, so only ASCII digits and ASCII white
    space are recognised as such.
  \<^item> A missing value (\<^verbatim>\<open>NaN\<close>, \<^verbatim>\<open>NaT\<close>) is \<^term>\<open>None\<close> or a constructor of its own.
  \<^item> A Python exception is a value of \<^verbatim>\<open>py_error\<close>; a method that can raise returns
    \<^verbatim>\<open>py_error + result\<close>, with \<^term>\<open>Inl\<close> for the exception.
  \<^item> A method that assigns to its object or to its argument returns the new contents;
    a method that works on a copy, or only reads, is a function of its argument.
  \<^item> What the library makes of a text (\<^verbatim>\<open>to_datetime\<close>, \<^verbatim>\<open>to_numeric\<close>) is a parameter of
    the methods that call it.
  \<^item> Amounts and totals are real numbers; the thresholds of the action bands compare
    exactly. Rounding is modelled only where the program itself does floating-point
    arithmetic on a percentage (\<^verbatim>\<open>identify_top_spending_customers\<close>).
\<close>

datatype py_error =
    KeyError string
  | ValueError string
  | AttributeError string

subsection \<open>MVAnalysis.py: the MonetaryValue class\<close>

text \<open>
  A cell of the \<^verbatim>\<open>Amount\<close> column: text, a number, or \<^verbatim>\<open>NaN\<close>.
\<close>

datatype amount_cell = AText string | ANum real | ANaN

text \<open>
  The object's attributes. \<^verbatim>\<open>all_data\<close> is the private copy made by \<^verbatim>\<open>__init__\<close>;
  only its columns \<^verbatim>\<open>Customer ID\<close> and \<^verbatim>\<open>Amount\<close> are ever read, so a row is that
  pair. \<^verbatim>\<open>monetary_data\<close> rows are (Customer ID, Total Monetary Value) and
  \<^verbatim>\<open>action_plan\<close> rows are (Customer ID, Total Monetary Value, Action); both are
  \<^term>\<open>None\<close> until computed.
\<close>

record MonetaryValue =
  all_data :: "(string \<times> amount_cell) list"
  monetary_data :: "(string \<times> real) list option"
  action_plan :: "(string \<times> real \<times> string) list option"

definition MonetaryValue_init :: "(string \<times> amount_cell) list \<Rightarrow> MonetaryValue" where
  "MonetaryValue_init data =
     \<lparr>all_data = data, monetary_data = None, action_plan = None\<rparr>"

text \<open>
  \<^verbatim>\<open>pd.to_numeric(column, errors="coerce")\<close>, cell by cell. How a text is read as a number
  is the library's business: \<open>parse\<close> stands for it, \<^term>\<open>None\<close> meaning that the text
  is not a number.
\<close>

definition to_numeric :: "(string \<Rightarrow> real option) \<Rightarrow> amount_cell \<Rightarrow> amount_cell" where
  "to_numeric parse c =
     (case c of
        AText s \<Rightarrow> (case parse s of Some r \<Rightarrow> ANum r | None \<Rightarrow> ANaN)
      | ANum r \<Rightarrow> ANum r
      | ANaN \<Rightarrow> ANaN)"

text \<open>The numbers of a column, \<^verbatim>\<open>NaN\<close> skipped (as \<^verbatim>\<open>sum\<close> does).\<close>

fun numbers :: "amount_cell list \<Rightarrow> real list" where
  "numbers [] = []"
| "numbers (ANum r # cs) = r # numbers cs"
| "numbers (c # cs) = numbers cs"

text \<open>
  \<^verbatim>\<open>groupby("Customer ID")["Amount"].sum().reset_index(...)\<close>: one row per distinct
  customer, in sorted key order, with the sum of the customer's numeric amounts.
\<close>

definition groupby_sum :: "(string \<times> amount_cell) list \<Rightarrow> (string \<times> real) list" where
  "groupby_sum data =
     map (\<lambda>c. (c, sum_list (numbers (map snd (filter (\<lambda>row. fst row = c) data)))))
       (sort (remdups (map fst data)))"

text \<open>
  \<^verbatim>\<open>sort_values(by="Total Monetary Value", ascending=False)\<close>. The order of rows with
  equal totals is whatever the sorting algorithm leaves; here it is the stable one.
\<close>

definition sort_values_desc :: "(string \<times> real) list \<Rightarrow> (string \<times> real) list" where
  "sort_values_desc rows = sort_key (\<lambda>row. - snd row) rows"

definition calculate_monetary_value ::
    "(string \<Rightarrow> real option) \<Rightarrow> MonetaryValue \<Rightarrow> MonetaryValue" where
  "calculate_monetary_value parse self =
     (let data = map (\<lambda>(c, a). (c, to_numeric parse a)) (all_data self)
      in self\<lparr>all_data := data,
              monetary_data := Some (sort_values_desc (groupby_sum data))\<rparr>)"

definition not_calculated :: py_error where
  "not_calculated =
     ValueError ''Monetary value data has not been calculated. Call calculate_monetary_value() first.''"

definition assign_action :: "real \<Rightarrow> string" where
  "assign_action v =
     (if v > 1000 then ''VIP Treatment: Personalized Offers''
      else if 500 \<le> v \<and> v \<le> 1000 then ''Upselling: Discounts on Larger Purchases''
      else if 100 \<le> v \<and> v < 500 then ''Retention: Loyalty Rewards''
      else ''Engagement: Marketing Emails or Social Media'')"

text \<open>
  \<^verbatim>\<open>generate_action_plan\<close> returns nothing and assigns \<^verbatim>\<open>self.action_plan\<close>; the model
  returns the exception, if any, and the object as the call leaves it.
\<close>

definition generate_action_plan :: "MonetaryValue \<Rightarrow> (py_error + unit) \<times> MonetaryValue" where
  "generate_action_plan self =
     (case monetary_data self of
        None \<Rightarrow> (Inl not_calculated, self)
      | Some md \<Rightarrow>
          (Inr (),
           self\<lparr>action_plan := Some (map (\<lambda>(c, v). (c, v, assign_action v)) md)\<rparr>))"

text \<open>
  The arithmetic of \<^verbatim>\<open>int(len(self.monetary_data) * (top_percent / 100))\<close> is Python's:
  \<^verbatim>\<open>/\<close> and \<^verbatim>\<open>*\<close> give IEEE 754 binary64 results, rounded to nearest, ties to even,
  and \<^verbatim>\<open>int\<close> truncates towards zero. A float is modelled by the rational number it
  denotes. \<open>binade x\<close> is the exponent \<open>e\<close> with \<open>2\<^sup>e \<le> x < 2\<^sup>e\<^sup>+\<^sup>1\<close> for \<open>x > 0\<close>, and
  \<open>round_double\<close> rounds to 53 significant bits (normal range; overflow and subnormal
  numbers do not arise for a row count times a percentage).
\<close>

definition pow2 :: "int \<Rightarrow> rat" where
  "pow2 e = (if 0 \<le> e then 2 ^ nat e else 1 / 2 ^ nat (- e))"

definition binade :: "rat \<Rightarrow> int" where
  "binade x =
     (let (a, b) = quotient_of x; d = bitlen a - bitlen b
      in if pow2 d \<le> x then d else d - 1)"

definition round_half_even :: "rat \<Rightarrow> int" where
  "round_half_even x =
     (let f = \<lfloor>x\<rfloor>; d = x - of_int f
      in if d < 1 / 2 then f else if 1 / 2 < d then f + 1
         else if even f then f else f + 1)"

definition round_double :: "rat \<Rightarrow> rat" where
  "round_double x =
     (if x = 0 then 0
      else let u = pow2 (binade \<bar>x\<bar> - 52) in of_int (round_half_even (x / u)) * u)"

definition float_div :: "rat \<Rightarrow> rat \<Rightarrow> rat" where
  "float_div x y = round_double (x / y)"

definition float_mul :: "rat \<Rightarrow> rat \<Rightarrow> rat" where
  "float_mul x y = round_double (x * y)"

text \<open>The float of a row count.\<close>

definition py_float :: "nat \<Rightarrow> rat" where
  "py_float n = round_double (of_nat n)"

definition py_int :: "rat \<Rightarrow> int" where
  "py_int x = (if 0 \<le> x then \<lfloor>x\<rfloor> else \<lceil>x\<rceil>)"

text \<open>
  \<^verbatim>\<open>DataFrame.head(n)\<close>: the first \<open>n\<close> rows, and for a negative \<open>n\<close> all rows but the
  last \<open>- n\<close>.
\<close>

definition head :: "int \<Rightarrow> 'a list \<Rightarrow> 'a list" where
  "head n rows =
     (if 0 \<le> n then take (nat n) rows else take (length rows - nat (- n)) rows)"

definition identify_top_spending_customers ::
    "MonetaryValue \<Rightarrow> rat \<Rightarrow> py_error + (string \<times> real) list" where
  "identify_top_spending_customers self top_percent =
     (case monetary_data self of
        None \<Rightarrow> Inl not_calculated
      | Some md \<Rightarrow>
          (let top_n = py_int (float_mul (py_float (length md)) (float_div top_percent 100))
           in Inr (head top_n md)))"

subsection \<open>FreRecAnalysis.py: the FrequencyRecency class\<close>

text \<open>
  A time stamp is (year, month, day, hour, minute, second); the order of the tuples is
  the order in time.
\<close>

type_synonym timestamp = "nat \<times> nat \<times> nat \<times> nat \<times> nat \<times> nat"

definition month_of :: "timestamp \<Rightarrow> nat" where
  "month_of t = fst (snd t)"

text \<open>
  The \<^verbatim>\<open>Paid Date\<close> column is text as ingested (dtype \<^verbatim>\<open>object\<close>) and time stamps, with
  \<^verbatim>\<open>NaT\<close> as \<^term>\<open>None\<close>, once parsed (dtype \<^verbatim>\<open>datetime64\<close>).
\<close>

datatype date_col = ObjectCol "string list" | DatetimeCol "timestamp option list"

text \<open>
  The transaction table. The four ingested columns are always there; a cell of
  \<^verbatim>\<open>Amount\<close>, \<^verbatim>\<open>Type\<close> and \<^verbatim>\<open>Last 4 Card Digits\<close> is given by its text (\<^verbatim>\<open>str\<close> of the cell),
  and a missing card suffix (\<^verbatim>\<open>NaN\<close>) is \<^term>\<open>None\<close>. The three derived columns are
  \<^term>\<open>None\<close> until a method adds them.
\<close>

text \<open>Below, \<open>df\<close> is the method's parameter \<^verbatim>\<open>all_data\<close>.\<close>

record frame =
  Paid_Date :: date_col
  Amount :: "string list"
  Type :: "string list"
  Last_4_Card_Digits :: "string option list"
  last_4_card_digits :: "string list option"
  Customer_ID :: "string list option"
  Month :: "nat option list option"

definition nrows :: "frame \<Rightarrow> nat" where
  "nrows df = length (Amount df)"

definition col_length :: "date_col \<Rightarrow> nat" where
  "col_length col = (case col of ObjectCol ss \<Rightarrow> length ss | DatetimeCol ts \<Rightarrow> length ts)"

text \<open>All columns of a table have one length.\<close>

definition wf_frame :: "frame \<Rightarrow> bool" where
  "wf_frame df \<longleftrightarrow>
     col_length (Paid_Date df) = nrows df \<and>
     length (Type df) = nrows df \<and>
     length (Last_4_Card_Digits df) = nrows df \<and>
     (case last_4_card_digits df of None \<Rightarrow> True | Some c \<Rightarrow> length c = nrows df) \<and>
     (case Customer_ID df of None \<Rightarrow> True | Some c \<Rightarrow> length c = nrows df) \<and>
     (case Month df of None \<Rightarrow> True | Some c \<Rightarrow> length c = nrows df)"

text \<open>\<^verbatim>\<open>str.isdigit\<close>: at least one character, and only digits.\<close>

definition isdigit :: "string \<Rightarrow> bool" where
  "isdigit s \<longleftrightarrow> s \<noteq> [] \<and> list_all (\<lambda>c. c \<in> set ''0123456789'') s"

text \<open>
  What an f-string makes of a \<^verbatim>\<open>Paid Date\<close> cell: a text as it is, a time stamp as
  \<^verbatim>\<open>YYYY-MM-DD HH:MM:SS\<close>, and \<^verbatim>\<open>NaT\<close> as \<^verbatim>\<open>NaT\<close>.
\<close>

definition digit_char :: "nat \<Rightarrow> char" where
  "digit_char n = ''0123456789'' ! (n mod 10)"

definition pad2 :: "nat \<Rightarrow> string" where
  "pad2 n = [digit_char (n div 10), digit_char n]"

definition str_timestamp :: "timestamp \<Rightarrow> string" where
  "str_timestamp t =
     (case t of (y, mo, d, h, mi, s) \<Rightarrow>
        pad2 (y div 100) @ pad2 y @ ''-'' @ pad2 mo @ ''-'' @ pad2 d @ '' '' @
        pad2 h @ '':'' @ pad2 mi @ '':'' @ pad2 s)"

definition format_dates :: "date_col \<Rightarrow> string list" where
  "format_dates col =
     (case col of
        ObjectCol ss \<Rightarrow> ss
      | DatetimeCol ts \<Rightarrow>
          map (\<lambda>t. case t of None \<Rightarrow> ''NaT'' | Some t \<Rightarrow> str_timestamp t) ts)"

text \<open>The \<^verbatim>\<open>lambda\<close> of \<^verbatim>\<open>create_customer_id\<close>, on the cells of one row.\<close>

definition customer_id_of :: "string \<Rightarrow> string \<Rightarrow> string \<Rightarrow> string \<Rightarrow> string" where
  "customer_id_of l4 paid_date amount type =
     (if isdigit l4 then l4 else paid_date @ ''|'' @ amount @ ''|'' @ type)"

text \<open>
  \<^verbatim>\<open>create_customer_id\<close> works on a copy of its argument and returns the copy, with the
  columns \<^verbatim>\<open>last_4_card_digits\<close> and \<^verbatim>\<open>Customer ID\<close> set.
\<close>

definition create_customer_id :: "frame \<Rightarrow> frame" where
  "create_customer_id df =
     (let l4 = map (\<lambda>c. case c of None \<Rightarrow> [] | Some s \<Rightarrow> s) (Last_4_Card_Digits df);
          df1 = df\<lparr>last_4_card_digits := Some l4\<rparr>;
          ids = map (\<lambda>(l, p, a, t). customer_id_of l p a t)
                  (zip l4 (zip (format_dates (Paid_Date df1))
                    (zip (Amount df1) (Type df1))))
      in df1\<lparr>Customer_ID := Some ids\<rparr>)"

text \<open>
  \<^verbatim>\<open>pd.to_datetime(column, format="%m/%d/%y %I:%M %p", errors="coerce")\<close>: a text is
  parsed by the library (\<open>strptime\<close> stands for it, \<^term>\<open>None\<close> meaning that the text
  does not parse, which \<^verbatim>\<open>coerce\<close> turns into \<^verbatim>\<open>NaT\<close>); a column of time stamps is
  returned as it is.
\<close>

definition to_datetime :: "(string \<Rightarrow> timestamp option) \<Rightarrow> date_col \<Rightarrow> timestamp option list" where
  "to_datetime strptime col =
     (case col of ObjectCol ss \<Rightarrow> map strptime ss | DatetimeCol ts \<Rightarrow> ts)"

definition dt_month :: "timestamp option list \<Rightarrow> nat option list" where
  "dt_month ts = map (map_option month_of) ts"

text \<open>
  \<^verbatim>\<open>groupby(["Customer ID", "Month"]).size().reset_index(name="Visits")\<close>: rows whose
  month is \<^verbatim>\<open>NaN\<close> belong to no group; one row (Customer ID, Month, Visits) per
  remaining distinct key, in sorted key order.
\<close>

definition group_keys :: "(string \<times> nat option) list \<Rightarrow> (string \<times> nat) list" where
  "group_keys rows = List.map_filter (\<lambda>(c, m). map_option (Pair c) m) rows"

definition groupby_size :: "(string \<times> nat option) list \<Rightarrow> (string \<times> nat \<times> nat) list" where
  "groupby_size rows =
     (let keys = group_keys rows
      in map (\<lambda>k. (fst k, snd k, count_list keys k)) (sort (remdups keys)))"

text \<open>
  \<^verbatim>\<open>calculate_monthly_visits\<close> assigns two columns of the table it is given and then
  groups; the model returns that table as the call leaves it, and the result.
\<close>

definition calculate_monthly_visits ::
    "(string \<Rightarrow> timestamp option) \<Rightarrow> frame \<Rightarrow> frame \<times> (py_error + (string \<times> nat \<times> nat) list)" where
  "calculate_monthly_visits strptime df =
     (let ts = to_datetime strptime (Paid_Date df);
          df1 = df\<lparr>Paid_Date := DatetimeCol ts\<rparr>;
          df2 = df1\<lparr>Month := Some (dt_month ts)\<rparr>
      in (df2,
          case Customer_ID df2 of
            None \<Rightarrow> Inl (KeyError ''Customer ID'')
          | Some ids \<Rightarrow> Inr (groupby_size (zip ids (dt_month ts)))))"

text \<open>
  \<^verbatim>\<open>groupby("Customer ID")["Paid Date"].max().reset_index(name="Recency")\<close>: one row per
  distinct customer, in sorted key order. The maximum skips \<^verbatim>\<open>NaT\<close> and is \<^verbatim>\<open>NaT\<close> for a
  group that holds nothing else. On a text column it is the greatest text.
\<close>

fun latest :: "timestamp option list \<Rightarrow> timestamp option" where
  "latest [] = None"
| "latest (None # ts) = latest ts"
| "latest (Some t # ts) = (case latest ts of None \<Rightarrow> Some t | Some u \<Rightarrow> Some (max t u))"

definition greatest_text :: "string list \<Rightarrow> string" where
  "greatest_text ss = foldr max ss []"

definition group_cells :: "string \<Rightarrow> string list \<Rightarrow> 'a list \<Rightarrow> 'a list" where
  "group_cells c ids cells = map snd (filter (\<lambda>row. fst row = c) (zip ids cells))"

datatype recency_table =
    RecencyObject "(string \<times> string) list"
  | RecencyDatetime "(string \<times> timestamp option) list"

definition calculate_recency :: "frame \<Rightarrow> py_error + recency_table" where
  "calculate_recency df =
     (case Customer_ID df of
        None \<Rightarrow> Inl (KeyError ''Customer ID'')
      | Some ids \<Rightarrow>
          (case Paid_Date df of
             ObjectCol ss \<Rightarrow>
               Inr (RecencyObject
                 (map (\<lambda>c. (c, greatest_text (group_cells c ids ss))) (sort (remdups ids))))
           | DatetimeCol ts \<Rightarrow>
               Inr (RecencyDatetime
                 (map (\<lambda>c. (c, latest (group_cells c ids ts))) (sort (remdups ids))))))"

text \<open>
  \<^verbatim>\<open>categorize_customers\<close>. A row of \<^verbatim>\<open>data\<close>, the left join of the visit table with the
  recency table, extended by the two computed columns.
\<close>

record joined =
  customer :: string
  month :: nat
  visits :: nat
  recency :: "timestamp option"
  total_visits :: nat
  recency_month :: "nat option"

text \<open>
  \<^verbatim>\<open>pd.merge(frequency_data, recency_data, on="Customer ID", how="left")\<close>: every visit
  row once per recency row of its customer, and once with a missing recency if there is
  none.
\<close>

definition merge_left ::
    "(string \<times> nat \<times> nat) list \<Rightarrow> (string \<times> timestamp option) list \<Rightarrow>
     (string \<times> nat \<times> nat \<times> timestamp option) list" where
  "merge_left frequency_data recency_data =
     concat (map (\<lambda>(c, m, v).
        case filter (\<lambda>r. fst r = c) recency_data of
          [] \<Rightarrow> [(c, m, v, None)]
        | rs \<Rightarrow> map (\<lambda>r. (c, m, v, snd r)) rs) frequency_data)"

definition join_data ::
    "(string \<times> nat \<times> nat) list \<Rightarrow> (string \<times> timestamp option) list \<Rightarrow> joined list" where
  "join_data frequency_data recency_data =
     (let data = merge_left frequency_data recency_data
      in map (\<lambda>(c, m, v, r).
           \<lparr>customer = c, month = m, visits = v, recency = r,
            total_visits =
              sum_list (map (\<lambda>(c', m', v', r'). v') (filter (\<lambda>row. fst row = c) data)),
            recency_month = map_option month_of r\<rparr>) data)"

text \<open>\<^verbatim>\<open>customer_categories[key] += 1\<close>.\<close>

definition increment :: "string \<Rightarrow> (string \<rightharpoonup> nat) \<Rightarrow> py_error + (string \<rightharpoonup> nat)" where
  "increment key d =
     (case d key of None \<Rightarrow> Inl (KeyError key) | Some n \<Rightarrow> Inr (d(key \<mapsto> n + 1)))"

text \<open>The body of the \<^verbatim>\<open>for\<close> loop over the rows of \<^verbatim>\<open>data\<close>.\<close>

definition categorize_row ::
    "nat \<Rightarrow> joined \<Rightarrow> (string \<rightharpoonup> nat) \<Rightarrow> py_error + (string \<rightharpoonup> nat)" where
  "categorize_row current_month row customer_categories =
     (if total_visits row > 6 then
        (if recency_month row = Some current_month
         then increment ''Active Regular'' customer_categories
         else increment ''Inactive Regular'' customer_categories)
      else
        (if recency_month row = Some current_month
         then increment ''Active Occasional'' customer_categories
         else increment ''Inactive Occasional'' customer_categories))"

fun iterrows :: "nat \<Rightarrow> joined list \<Rightarrow> (string \<rightharpoonup> nat) \<Rightarrow> py_error + (string \<rightharpoonup> nat)" where
  "iterrows current_month [] customer_categories = Inr customer_categories"
| "iterrows current_month (row # rows) customer_categories =
     (case categorize_row current_month row customer_categories of
        Inl e \<Rightarrow> Inl e
      | Inr d \<Rightarrow> iterrows current_month rows d)"

definition initial_categories :: "string \<rightharpoonup> nat" where
  "initial_categories =
     [''Active Regular'' \<mapsto> 0, ''Inactive Regular'' \<mapsto> 0,
      ''Active Occasional'' \<mapsto> 0, ''Inactive Occasional'' \<mapsto> 0]"

text \<open>
  \<open>current_month\<close> is \<^verbatim>\<open>self.current_month\<close>. The accessor \<^verbatim>\<open>.dt\<close> exists on a column of
  time stamps only.
\<close>

definition categorize_customers ::
    "nat \<Rightarrow> (string \<times> nat \<times> nat) list \<Rightarrow> recency_table \<Rightarrow> py_error + (string \<rightharpoonup> nat)" where
  "categorize_customers current_month frequency_data recency_data =
     (case recency_data of
        RecencyObject rs \<Rightarrow>
          Inl (AttributeError ''Can only use .dt accessor with datetimelike values'')
      | RecencyDatetime rs \<Rightarrow>
          iterrows current_month (join_data frequency_data rs) initial_categories)"

subsection \<open>The library's parsers, for closed examples\<close>

text \<open>
  The methods above take the library's reading of a text as a parameter, and the
  general theorems hold for every such reading. The closed examples need one. This is
  the match that \<^verbatim>\<open>to_datetime\<close> makes for the format \<^verbatim>\<open>%m/%d/%y %I:%M %p\<close>, the regular
  expression
  \<^verbatim>\<open>(1[0-2]|0[1-9]|[1-9])/(3[0-1]|[1-2]\d|0[1-9]|[1-9]| [1-9])/(\d\d)\s+(1[0-2]|0[1-9]|[1-9]):([0-5]\d|\d)\s+(am|pm)\<close>,
  letters in either case, alternatives tried from left to right, with nothing left
  after the match and a day that exists in its month. A matcher returns the values it
  can read at the head of a text, each with the rest of the text, in the order in which
  the alternatives are tried.
\<close>

definition digit_value :: "char \<Rightarrow> nat" where
  "digit_value c = of_char c - 48"

definition two_chars :: "string \<Rightarrow> string \<Rightarrow> string \<Rightarrow> (nat \<times> string) list" where
  "two_chars first second s =
     (case s of
        c1 # c2 # rest \<Rightarrow>
          if c1 \<in> set first \<and> c2 \<in> set second
          then [((if c1 = CHR '' '' then 0 else 10 * digit_value c1) + digit_value c2, rest)]
          else []
      | _ \<Rightarrow> [])"

definition one_char :: "string \<Rightarrow> string \<Rightarrow> (nat \<times> string) list" where
  "one_char allowed s =
     (case s of c # rest \<Rightarrow> if c \<in> set allowed then [(digit_value c, rest)] else [] | _ \<Rightarrow> [])"

definition literal :: "char \<Rightarrow> string \<Rightarrow> string list" where
  "literal c s = (case s of c' # rest \<Rightarrow> if c' = c then [rest] else [] | _ \<Rightarrow> [])"

definition is_space :: "char \<Rightarrow> bool" where
  "is_space c \<longleftrightarrow> of_char c \<in> {9, 10, 11, 12, 13, 28, 29, 30, 31, 32 :: nat}"

text \<open>\<^verbatim>\<open>\s+\<close>: one or more white-space characters, the longest run first.\<close>

fun spaces :: "string \<Rightarrow> string list" where
  "spaces [] = []"
| "spaces (c # rest) = (if is_space c then spaces rest @ [rest] else [])"

definition re_m :: "string \<Rightarrow> (nat \<times> string) list" where
  "re_m s = two_chars ''1'' ''012'' s @ two_chars ''0'' ''123456789'' s @ one_char ''123456789'' s"

definition re_d :: "string \<Rightarrow> (nat \<times> string) list" where
  "re_d s =
     two_chars ''3'' ''01'' s @ two_chars ''12'' ''0123456789'' s @
     two_chars ''0'' ''123456789'' s @ one_char ''123456789'' s @
     two_chars '' '' ''123456789'' s"

definition re_y :: "string \<Rightarrow> (nat \<times> string) list" where
  "re_y s = two_chars ''0123456789'' ''0123456789'' s"

definition re_I :: "string \<Rightarrow> (nat \<times> string) list" where
  "re_I s = two_chars ''1'' ''012'' s @ two_chars ''0'' ''123456789'' s @ one_char ''123456789'' s"

definition re_M :: "string \<Rightarrow> (nat \<times> string) list" where
  "re_M s = two_chars ''012345'' ''0123456789'' s @ one_char ''0123456789'' s"

text \<open>\<^verbatim>\<open>am|pm\<close>: \<^term>\<open>False\<close> for am, \<^term>\<open>True\<close> for pm.\<close>

definition re_p :: "string \<Rightarrow> (bool \<times> string) list" where
  "re_p s =
     (case s of
        c1 # c2 # rest \<Rightarrow>
          if c1 \<in> set ''aApP'' \<and> c2 \<in> set ''mM'' then [(c1 \<in> set ''pP'', rest)] else []
      | _ \<Rightarrow> [])"

definition leap_year :: "nat \<Rightarrow> bool" where
  "leap_year y = (if y mod 100 = 0 then y mod 400 = 0 else y mod 4 = 0)"

definition days_in_month :: "nat \<Rightarrow> nat \<Rightarrow> nat" where
  "days_in_month y m =
     (if m = 2 then (if leap_year y then 29 else 28)
      else if m \<in> {4, 6, 9, 11} then 30 else 31)"

definition format_matches ::
    "string \<Rightarrow> (nat \<times> nat \<times> nat \<times> nat \<times> nat \<times> bool \<times> string) list" where
  "format_matches s =
     [(m, d, y, h, mi, pm, r11).
        (m, r1) \<leftarrow> re_m s, r2 \<leftarrow> literal CHR ''/'' r1,
        (d, r3) \<leftarrow> re_d r2, r4 \<leftarrow> literal CHR ''/'' r3,
        (y, r5) \<leftarrow> re_y r4, r6 \<leftarrow> spaces r5,
        (h, r7) \<leftarrow> re_I r6, r8 \<leftarrow> literal CHR '':'' r7,
        (mi, r9) \<leftarrow> re_M r8, r10 \<leftarrow> spaces r9,
        (pm, r11) \<leftarrow> re_p r10]"

definition strptime_format :: "string \<Rightarrow> timestamp option" where
  "strptime_format s =
     (case format_matches s of
        [] \<Rightarrow> None
      | (m, d, y, h, mi, pm, rest) # _ \<Rightarrow>
          (let year = (if y \<le> 68 then 2000 + y else 1900 + y);
               hour = (if pm then (if h = 12 then 12 else h + 12)
                       else (if h = 12 then 0 else h))
           in if rest = [] \<and> d \<le> days_in_month year m
              then Some (year, m, d, hour, mi, 0) else None))"

text \<open>
  A plain decimal numeral, with an optional sign and an optional fraction, as
  \<^verbatim>\<open>to_numeric\<close> reads it; any other text counts as not a number here.
\<close>

definition digits_value :: "string \<Rightarrow> nat" where
  "digits_value ds = foldl (\<lambda>n c. 10 * n + digit_value c) 0 ds"

definition all_digits :: "string \<Rightarrow> bool" where
  "all_digits s \<longleftrightarrow> list_all (\<lambda>c. c \<in> set ''0123456789'') s"

definition unsigned_decimal :: "string \<Rightarrow> real option" where
  "unsigned_decimal s =
     (let whole = takeWhile (\<lambda>c. c \<noteq> CHR ''.'') s;
          rest = dropWhile (\<lambda>c. c \<noteq> CHR ''.'') s;
          frac = drop 1 rest
      in if all_digits whole \<and> all_digits frac \<and> whole @ frac \<noteq> []
         then Some (real (digits_value (whole @ frac)) / 10 ^ length frac)
         else None)"

definition decimal_text :: "string \<Rightarrow> real option" where
  "decimal_text s =
     (case s of
        c # rest \<Rightarrow>
          if c = CHR ''-'' then map_option uminus (unsigned_decimal rest)
          else if c = CHR ''+'' then unsigned_decimal rest
          else unsigned_decimal s
      | [] \<Rightarrow> None)"

subsection \<open>Tables and measures used in the statements\<close>

text \<open>The table of \<^verbatim>\<open>setUp\<close> in \<^verbatim>\<open>testFreRecAnalysis.py\<close> (Scenario A).\<close>

definition sample_data :: frame where
  "sample_data =
     \<lparr>Paid_Date = ObjectCol [''2024-10-01 10:00:00'', ''2024-09-15 14:00:00'', ''2024-08-20 17:00:00''],
      Amount = [''25.00'', ''50.00'', ''75.00''],
      Type = [''Credit'', ''Credit'', ''Cash''],
      Last_4_Card_Digits = [Some ''1234'', Some ''5678'', Some []],
      last_4_card_digits = None, Customer_ID = None, Month = None\<rparr>"

text \<open>A card seen twice and a cash payment entered twice.\<close>

definition repeated_rows :: frame where
  "repeated_rows =
     \<lparr>Paid_Date = ObjectCol [''10/01/24 10:00 AM'', ''09/15/24 02:00 PM'',
                              ''08/20/24 05:00 PM'', ''08/20/24 05:00 PM''],
      Amount = [''25.00'', ''50.00'', ''75.00'', ''75.00''],
      Type = [''Credit'', ''Credit'', ''Cash'', ''Cash''],
      Last_4_Card_Digits = [Some ''1234'', Some ''1234'', None, Some []],
      last_4_card_digits = None, Customer_ID = None, Month = None\<rparr>"

text \<open>The dictionary of the four counters.\<close>

definition categories :: "nat \<Rightarrow> nat \<Rightarrow> nat \<Rightarrow> nat \<Rightarrow> (string \<rightharpoonup> nat)" where
  "categories ar ir ao io =
     [''Active Regular'' \<mapsto> ar, ''Inactive Regular'' \<mapsto> ir,
      ''Active Occasional'' \<mapsto> ao, ''Inactive Occasional'' \<mapsto> io]"

definition count_rows :: "(joined \<Rightarrow> bool) \<Rightarrow> joined list \<Rightarrow> nat" where
  "count_rows P rows = length (filter P rows)"

text \<open>
  Five customers, reference month 10: seven visits and last seen in October, seven
  visits and last seen in September, two visits and last seen in October, one visit and
  last seen in September, three visits and no recency row.
\<close>

definition five_visits :: "(string \<times> nat \<times> nat) list" where
  "five_visits = [(''A'', 10, 7), (''B'', 9, 7), (''C'', 10, 2), (''D'', 9, 1), (''E'', 8, 3)]"

definition four_recencies :: "(string \<times> timestamp option) list" where
  "four_recencies =
     [(''A'', Some (2024, 10, 1, 10, 0, 0)), (''B'', Some (2024, 9, 15, 14, 0, 0)),
      (''C'', Some (2024, 10, 2, 9, 30, 0)), (''D'', Some (2024, 9, 1, 8, 0, 0))]"

text \<open>One card, seen once in September and once in October.\<close>

definition two_months :: frame where
  "two_months =
     \<lparr>Paid_Date = ObjectCol [''09/15/24 02:00 PM'', ''10/01/24 10:00 AM''],
      Amount = [''50.00'', ''25.00''],
      Type = [''Credit'', ''Credit''],
      Last_4_Card_Digits = [Some ''1234'', Some ''1234''],
      last_4_card_digits = None, Customer_ID = None, Month = None\<rparr>"

text \<open>The sum over all periods of one customer's monthly visit counts.\<close>

definition customer_visits :: "string \<Rightarrow> (string \<times> nat \<times> nat) list \<Rightarrow> nat" where
  "customer_visits c monthly_visits =
     sum_list (map (\<lambda>(c', m, v). v) (filter (\<lambda>row. fst row = c) monthly_visits))"

text \<open>
  One row, the first of the test table, with its date as the test writes it: the text
  does not match the format, so the row is in no group.
\<close>

definition unparsed_row :: frame where
  "unparsed_row =
     \<lparr>Paid_Date = ObjectCol [''2024-10-01 10:00:00''], Amount = [''25.00''],
      Type = [''Credit''], Last_4_Card_Digits = [Some ''1234''],
      last_4_card_digits = Some [''1234''], Customer_ID = Some [''1234''], Month = None\<rparr>"

text \<open>
  The four rows of \<open>repeated_rows\<close> with a fifth whose date is empty: the card \<^verbatim>\<open>1234\<close>
  has three rows, two of them with a date that parses.
\<close>

definition five_rows :: frame where
  "five_rows =
     \<lparr>Paid_Date = ObjectCol [''10/01/24 10:00 AM'', ''09/15/24 02:00 PM'',
                              ''08/20/24 05:00 PM'', ''08/20/24 05:00 PM'', []],
      Amount = [''25.00'', ''50.00'', ''75.00'', ''75.00'', ''5.00''],
      Type = [''Credit'', ''Credit'', ''Cash'', ''Cash'', ''Credit''],
      Last_4_Card_Digits = [Some ''1234'', Some ''1234'', None, Some [], Some ''1234''],
      last_4_card_digits = Some [''1234'', ''1234'', [], [], ''1234''],
      Customer_ID = Some [''1234'', ''1234'', ''08/20/24 05:00 PM|75.00|Cash'',
                          ''08/20/24 05:00 PM|75.00|Cash'', ''1234''],
      Month = None\<rparr>"

text \<open>The time stamps that parsed among the rows of customer \<open>c\<close>.\<close>

definition parsed_stamps :: "string \<Rightarrow> string list \<Rightarrow> timestamp option list \<Rightarrow> timestamp set" where
  "parsed_stamps c ids ts = {t. (c, Some t) \<in> set (zip ids ts)}"

text \<open>What a cell contributes to a total: its number, and nothing if it has none.\<close>

definition contribution :: "amount_cell \<Rightarrow> real" where
  "contribution c = (case c of ANum r \<Rightarrow> r | _ \<Rightarrow> 0)"

text \<open>The sum of the amounts of customer \<open>c\<close> that are numbers once coerced.\<close>

definition customer_total ::
    "(string \<Rightarrow> real option) \<Rightarrow> string \<Rightarrow> (string \<times> amount_cell) list \<Rightarrow> real" where
  "customer_total parse c data =
     sum_list (map (\<lambda>row. contribution (to_numeric parse (snd row)))
       (filter (\<lambda>row. fst row = c) data))"


text \<open>The table of \<^verbatim>\<open>setUp\<close> in \<^verbatim>\<open>testMVAnalysis.py\<close> (Scenario B).\<close>

definition test_data :: "(string \<times> amount_cell) list" where
  "test_data =
     [(''C1'', ANum 1500), (''C2'', ANum 800), (''C3'', ANum 300), (''C4'', ANum 50),
      (''C5'', ANum 1200)]"

text \<open>One hundred customers, \<^verbatim>\<open>00\<close> to \<^verbatim>\<open>99\<close>, with one payment of 10 each.\<close>

definition hundred_customers :: "(string \<times> amount_cell) list" where
  "hundred_customers = map (\<lambda>i. (pad2 i, ANum 10)) [0 ..< 100]"

section \<open>Properties\<close>

subsection \<open>Action bands\<close>

text \<open>
  Claim C4. The action label depends on the total spend \<open>v\<close> only, by four bands that
  cover every value and do not overlap: the label is VIP Treatment exactly when
  \<open>v > 1000\<close>, Upselling exactly when \<open>500 \<le> v \<le> 1000\<close>, Retention exactly when
  \<open>100 \<le> v < 500\<close> and Engagement exactly when \<open>v < 100\<close>. The spends 1500, 800, 300,
  50, 1200 get VIP, Upselling, Retention, Engagement, VIP. In the action plan every
  row carries the label of its own total, and generating the plan again from the same
  totals reproduces the same plan.
\<close>

theorem assign_action_bands:
  "(assign_action v = ''VIP Treatment: Personalized Offers'' \<longleftrightarrow> 1000 < v) \<and>
   (assign_action v = ''Upselling: Discounts on Larger Purchases'' \<longleftrightarrow> 500 \<le> v \<and> v \<le> 1000) \<and>
   (assign_action v = ''Retention: Loyalty Rewards'' \<longleftrightarrow> 100 \<le> v \<and> v < 500) \<and>
   (assign_action v = ''Engagement: Marketing Emails or Social Media'' \<longleftrightarrow> v < 100) \<and>
   map assign_action [1500, 800, 300, 50, 1200] =
     [''VIP Treatment: Personalized Offers'',
      ''Upselling: Discounts on Larger Purchases'',
      ''Retention: Loyalty Rewards'',
      ''Engagement: Marketing Emails or Social Media'',
      ''VIP Treatment: Personalized Offers''] \<and>
   (monetary_data self = Some md \<longrightarrow>
      action_plan (snd (generate_action_plan self)) =
        Some (map (\<lambda>(c, v). (c, v, assign_action v)) md) \<and>
      generate_action_plan (snd (generate_action_plan self)) = generate_action_plan self)"
  by (auto simp: assign_action_def generate_action_plan_def)

theorem assign_action_bands_witness:
  "assign_action 1500 = ''VIP Treatment: Personalized Offers'' \<and>
   assign_action 800 = ''Upselling: Discounts on Larger Purchases'' \<and>
   assign_action 300 = ''Retention: Loyalty Rewards'' \<and>
   assign_action 50 = ''Engagement: Marketing Emails or Social Media'' \<and>
   monetary_data \<lparr>all_data = [], monetary_data = Some [(''C1'', 1500), (''C4'', 50)],
                  action_plan = None\<rparr> = Some [(''C1'', 1500), (''C4'', 50)] \<and>
   action_plan (snd (generate_action_plan
       \<lparr>all_data = [], monetary_data = Some [(''C1'', 1500), (''C4'', 50)],
        action_plan = None\<rparr>)) =
     Some [(''C1'', 1500, ''VIP Treatment: Personalized Offers''),
           (''C4'', 50, ''Engagement: Marketing Emails or Social Media'')]"
  using assign_action_bands [of 1500
          "\<lparr>all_data = [], monetary_data = Some [(''C1'', 1500), (''C4'', 50)],
            action_plan = None\<rparr>" "[(''C1'', 1500), (''C4'', 50)]"]
        assign_action_bands [of 800] assign_action_bands [of 300]
        assign_action_bands [of 50]
  by simp

subsection \<open>Calls before the totals are computed\<close>

text \<open>
  Claim C9. On an object whose totals have not been computed (\<^verbatim>\<open>monetary_data\<close> is
  \<^verbatim>\<open>None\<close>, as \<^verbatim>\<open>__init__\<close> leaves it), \<^verbatim>\<open>identify_top_spending_customers\<close> and
  \<^verbatim>\<open>generate_action_plan\<close> raise the \<^verbatim>\<open>ValueError\<close> that names
  \<^verbatim>\<open>calculate_monetary_value()\<close>, return no rows, and leave the object as it was. After
  \<^verbatim>\<open>calculate_monetary_value\<close> neither call raises.
\<close>

theorem precondition_violation:
  "monetary_data (MonetaryValue_init data) = None \<and>
   (monetary_data self = None \<longrightarrow>
      identify_top_spending_customers self top_percent =
        Inl (ValueError ''Monetary value data has not been calculated. Call calculate_monetary_value() first.'') \<and>
      generate_action_plan self =
        (Inl (ValueError ''Monetary value data has not been calculated. Call calculate_monetary_value() first.''),
         self)) \<and>
   (\<exists>rows. identify_top_spending_customers (calculate_monetary_value parse self) top_percent
      = Inr rows) \<and>
   (\<exists>self'. generate_action_plan (calculate_monetary_value parse self) = (Inr (), self'))"
  by (simp add: MonetaryValue_init_def identify_top_spending_customers_def
      generate_action_plan_def calculate_monetary_value_def not_calculated_def Let_def)

theorem precondition_violation_witness:
  "monetary_data (MonetaryValue_init [(''C1'', ANum 1500)]) = None \<and>
   identify_top_spending_customers (MonetaryValue_init [(''C1'', ANum 1500)]) 10 =
     Inl (ValueError ''Monetary value data has not been calculated. Call calculate_monetary_value() first.'') \<and>
   generate_action_plan (MonetaryValue_init [(''C1'', ANum 1500)]) =
     (Inl (ValueError ''Monetary value data has not been calculated. Call calculate_monetary_value() first.''),
      MonetaryValue_init [(''C1'', ANum 1500)])"
  using precondition_violation
    [of "[(''C1'', ANum 1500)]" "MonetaryValue_init [(''C1'', ANum 1500)]" 10]
  by simp

subsection \<open>Customer identities\<close>

lemma create_customer_id_column:
  "Customer_ID (create_customer_id df) =
     Some (map (\<lambda>(l, p, a, t). customer_id_of l p a t)
       (zip (map (\<lambda>c. case c of None \<Rightarrow> [] | Some s \<Rightarrow> s) (Last_4_Card_Digits df))
         (zip (format_dates (Paid_Date df)) (zip (Amount df) (Type df)))))"
  by (simp add: create_customer_id_def Let_def)

lemma customer_id_nth:
  assumes "wf_frame df" and "Paid_Date df = ObjectCol dates" and "i < nrows df"
    and "Customer_ID (create_customer_id df) = Some ids"
  shows "ids ! i =
     customer_id_of (case Last_4_Card_Digits df ! i of None \<Rightarrow> [] | Some s \<Rightarrow> s)
       (dates ! i) (Amount df ! i) (Type df ! i)"
proof -
  from assms(1,2) have len: "length dates = nrows df" "length (Type df) = nrows df"
      "length (Last_4_Card_Digits df) = nrows df" "length (Amount df) = nrows df"
    by (simp_all add: wf_frame_def col_length_def nrows_def)
  from assms(4) have "ids = map (\<lambda>(l, p, a, t). customer_id_of l p a t)
       (zip (map (\<lambda>c. case c of None \<Rightarrow> [] | Some s \<Rightarrow> s) (Last_4_Card_Digits df))
         (zip dates (zip (Amount df) (Type df))))"
    by (simp add: create_customer_id_column assms(2) format_dates_def)
  with len assms(3) show ?thesis by simp
qed

text \<open>
  Claim C3. In a table whose \<^verbatim>\<open>Paid Date\<close> column is text, \<^verbatim>\<open>create_customer_id\<close> gives
  every row an identity: the card suffix if it is present and all digits, and otherwise
  the row's date, amount and type as they stand, joined by \<^verbatim>\<open>|\<close>. Hence two rows with
  the same all-digit card suffix get the same identity, and so do two rows without one
  that agree on date, amount and type. The three rows of Scenario A get \<^verbatim>\<open>1234\<close>,
  \<^verbatim>\<open>5678\<close> and \<^verbatim>\<open>2024-08-20 17:00:00|75.00|Cash\<close>.
\<close>

theorem create_customer_id_identity:
  assumes "wf_frame df" and "Paid_Date df = ObjectCol dates"
  shows "\<exists>ids. Customer_ID (create_customer_id df) = Some ids \<and> length ids = nrows df \<and>
     (\<forall>i < nrows df.
        ids ! i =
          (case Last_4_Card_Digits df ! i of
             Some s \<Rightarrow>
               if isdigit s then s
               else dates ! i @ ''|'' @ Amount df ! i @ ''|'' @ Type df ! i
           | None \<Rightarrow> dates ! i @ ''|'' @ Amount df ! i @ ''|'' @ Type df ! i)) \<and>
     (\<forall>i < nrows df. \<forall>j < nrows df. \<forall>s.
        isdigit s \<and> Last_4_Card_Digits df ! i = Some s \<and> Last_4_Card_Digits df ! j = Some s
        \<longrightarrow> ids ! i = ids ! j) \<and>
     (\<forall>i < nrows df. \<forall>j < nrows df.
        Last_4_Card_Digits df ! i \<in> {None, Some []} \<and>
        Last_4_Card_Digits df ! j \<in> {None, Some []} \<and>
        dates ! i = dates ! j \<and> Amount df ! i = Amount df ! j \<and> Type df ! i = Type df ! j
        \<longrightarrow> ids ! i = ids ! j) \<and>
     Customer_ID (create_customer_id sample_data) =
       Some [''1234'', ''5678'', ''2024-08-20 17:00:00|75.00|Cash'']"
proof -
  obtain ids where ids: "Customer_ID (create_customer_id df) = Some ids"
    by (simp add: create_customer_id_column)
  from assms have len: "length dates = nrows df" "length (Type df) = nrows df"
      "length (Last_4_Card_Digits df) = nrows df" "length (Amount df) = nrows df"
    by (simp_all add: wf_frame_def col_length_def nrows_def)
  have L: "length ids = nrows df"
    using ids len by (auto simp: create_customer_id_column assms(2) format_dates_def)
  have nth: "ids ! i =
     customer_id_of (case Last_4_Card_Digits df ! i of None \<Rightarrow> [] | Some s \<Rightarrow> s)
       (dates ! i) (Amount df ! i) (Type df ! i)" if "i < nrows df" for i
    using customer_id_nth [OF assms that ids] .
  have empty: "\<not> isdigit []" by (simp add: isdigit_def)
  have A: "\<forall>i < nrows df.
        ids ! i =
          (case Last_4_Card_Digits df ! i of
             Some s \<Rightarrow>
               if isdigit s then s
               else dates ! i @ ''|'' @ Amount df ! i @ ''|'' @ Type df ! i
           | None \<Rightarrow> dates ! i @ ''|'' @ Amount df ! i @ ''|'' @ Type df ! i)"
    using nth empty by (auto simp: customer_id_of_def split: option.splits)
  have B: "\<forall>i < nrows df. \<forall>j < nrows df. \<forall>s.
        isdigit s \<and> Last_4_Card_Digits df ! i = Some s \<and> Last_4_Card_Digits df ! j = Some s
        \<longrightarrow> ids ! i = ids ! j"
    using nth by (auto simp: customer_id_of_def)
  have C: "\<forall>i < nrows df. \<forall>j < nrows df.
        Last_4_Card_Digits df ! i \<in> {None, Some []} \<and>
        Last_4_Card_Digits df ! j \<in> {None, Some []} \<and>
        dates ! i = dates ! j \<and> Amount df ! i = Amount df ! j \<and> Type df ! i = Type df ! j
        \<longrightarrow> ids ! i = ids ! j"
    using nth empty by (auto simp: customer_id_of_def)
  have D: "Customer_ID (create_customer_id sample_data) =
       Some [''1234'', ''5678'', ''2024-08-20 17:00:00|75.00|Cash'']"
    by (simp add: create_customer_id_column sample_data_def format_dates_def
        customer_id_of_def isdigit_def)
  from ids L A B C D show ?thesis by blast
qed

theorem create_customer_id_identity_witness:
  "wf_frame repeated_rows \<and>
   Paid_Date repeated_rows =
     ObjectCol [''10/01/24 10:00 AM'', ''09/15/24 02:00 PM'',
                ''08/20/24 05:00 PM'', ''08/20/24 05:00 PM''] \<and>
   nrows repeated_rows = 4 \<and> isdigit ''1234'' \<and>
   Last_4_Card_Digits repeated_rows = [Some ''1234'', Some ''1234'', None, Some []] \<and>
   Customer_ID (create_customer_id repeated_rows) =
     Some [''1234'', ''1234'', ''08/20/24 05:00 PM|75.00|Cash'', ''08/20/24 05:00 PM|75.00|Cash'']"
proof -
  have wf: "wf_frame repeated_rows"
    by (simp add: wf_frame_def repeated_rows_def nrows_def col_length_def)
  have pd: "Paid_Date repeated_rows =
     ObjectCol [''10/01/24 10:00 AM'', ''09/15/24 02:00 PM'',
                ''08/20/24 05:00 PM'', ''08/20/24 05:00 PM'']"
    by (simp add: repeated_rows_def)
  have n: "nrows repeated_rows = 4"
    by (simp add: repeated_rows_def nrows_def)
  have d: "isdigit ''1234''"
    by (simp add: isdigit_def)
  have l4: "Last_4_Card_Digits repeated_rows = [Some ''1234'', Some ''1234'', None, Some []]"
    by (simp add: repeated_rows_def)
  have cols: "Amount repeated_rows = [''25.00'', ''50.00'', ''75.00'', ''75.00'']"
      "Type repeated_rows = [''Credit'', ''Credit'', ''Cash'', ''Cash'']"
    by (simp_all add: repeated_rows_def)
  from create_customer_id_identity [OF wf pd]
  obtain ids where ids: "Customer_ID (create_customer_id repeated_rows) = Some ids"
    and len: "length ids = nrows repeated_rows"
    and nth: "\<forall>i < nrows repeated_rows.
        ids ! i =
          (case Last_4_Card_Digits repeated_rows ! i of
             Some s \<Rightarrow>
               if isdigit s then s
               else [''10/01/24 10:00 AM'', ''09/15/24 02:00 PM'',
                     ''08/20/24 05:00 PM'', ''08/20/24 05:00 PM''] ! i @ ''|'' @
                    Amount repeated_rows ! i @ ''|'' @ Type repeated_rows ! i
           | None \<Rightarrow> [''10/01/24 10:00 AM'', ''09/15/24 02:00 PM'',
                     ''08/20/24 05:00 PM'', ''08/20/24 05:00 PM''] ! i @ ''|'' @
                    Amount repeated_rows ! i @ ''|'' @ Type repeated_rows ! i)"
    by blast
  have e: "\<not> isdigit []" by (simp add: isdigit_def)
  have "ids ! 0 = ''1234''" "ids ! 1 = ''1234''"
      "ids ! 2 = ''08/20/24 05:00 PM|75.00|Cash''" "ids ! 3 = ''08/20/24 05:00 PM|75.00|Cash''"
    using nth [rule_format, of 0] nth [rule_format, of 1] nth [rule_format, of 2]
      nth [rule_format, of 3] n l4 cols d e
    by simp_all
  with len n have "ids = [''1234'', ''1234'', ''08/20/24 05:00 PM|75.00|Cash'',
      ''08/20/24 05:00 PM|75.00|Cash'']"
    by (simp add: list_eq_iff_nth_eq less_Suc_eq numeral_eq_Suc) 
  with ids wf pd n d l4 show ?thesis by simp
qed

subsection \<open>Segments\<close>

lemma initial_categories_eq: "initial_categories = categories 0 0 0 0"
  by (simp add: initial_categories_def categories_def)

lemma increment_categories:
  "increment ''Active Regular'' (categories ar ir ao io) = Inr (categories (ar + 1) ir ao io)"
  "increment ''Inactive Regular'' (categories ar ir ao io) = Inr (categories ar (ir + 1) ao io)"
  "increment ''Active Occasional'' (categories ar ir ao io) = Inr (categories ar ir (ao + 1) io)"
  "increment ''Inactive Occasional'' (categories ar ir ao io) = Inr (categories ar ir ao (io + 1))"
  by (auto simp: increment_def categories_def fun_eq_iff)

lemma iterrows_categories:
  "iterrows cm rows (categories ar ir ao io) =
     Inr (categories
       (ar + count_rows (\<lambda>row. total_visits row > 6 \<and> recency_month row = Some cm) rows)
       (ir + count_rows (\<lambda>row. total_visits row > 6 \<and> recency_month row \<noteq> Some cm) rows)
       (ao + count_rows (\<lambda>row. \<not> total_visits row > 6 \<and> recency_month row = Some cm) rows)
       (io + count_rows (\<lambda>row. \<not> total_visits row > 6 \<and> recency_month row \<noteq> Some cm) rows))"
proof (induction rows arbitrary: ar ir ao io)
  case Nil
  then show ?case by (simp add: count_rows_def)
next
  case (Cons row rows)
  show ?case
    by (simp add: categorize_row_def increment_categories Cons.IH count_rows_def)
qed

lemma categorize_customers_counts:
  "categorize_customers cm frequency_data (RecencyDatetime rs) =
     Inr (categories
       (count_rows (\<lambda>row. total_visits row > 6 \<and> recency_month row = Some cm)
          (join_data frequency_data rs))
       (count_rows (\<lambda>row. total_visits row > 6 \<and> recency_month row \<noteq> Some cm)
          (join_data frequency_data rs))
       (count_rows (\<lambda>row. \<not> total_visits row > 6 \<and> recency_month row = Some cm)
          (join_data frequency_data rs))
       (count_rows (\<lambda>row. \<not> total_visits row > 6 \<and> recency_month row \<noteq> Some cm)
          (join_data frequency_data rs)))"
  by (simp add: categorize_customers_def initial_categories_eq iterrows_categories)

text \<open>
  Claim C1. The loop of \<^verbatim>\<open>categorize_customers\<close> adds one to exactly one counter for
  every row of the joined data: Active Regular when the row's total visits exceed 6 and
  its recency month is the reference month, Inactive Regular when they exceed 6 and the
  month differs, Active Occasional when they are at most 6 and the month is the
  reference month, Inactive Occasional when they are at most 6 and the month differs.
  A row whose recency is unknown has no recency month, so it is counted Inactive. The
  dictionary returned holds, for each label, the number of joined rows of that kind.
\<close>

theorem categorize_thresholds:
  "(total_visits row > 6 \<and> recency_month row = Some cm \<longrightarrow>
      categorize_row cm row d = increment ''Active Regular'' d) \<and>
   (total_visits row > 6 \<and> recency_month row \<noteq> Some cm \<longrightarrow>
      categorize_row cm row d = increment ''Inactive Regular'' d) \<and>
   (total_visits row \<le> 6 \<and> recency_month row = Some cm \<longrightarrow>
      categorize_row cm row d = increment ''Active Occasional'' d) \<and>
   (total_visits row \<le> 6 \<and> recency_month row \<noteq> Some cm \<longrightarrow>
      categorize_row cm row d = increment ''Inactive Occasional'' d) \<and>
   (recency row = None \<longrightarrow> row \<in> set (join_data frequency_data rs) \<longrightarrow>
      categorize_row cm row d =
        increment (if total_visits row > 6 then ''Inactive Regular'' else ''Inactive Occasional'') d) \<and>
   categorize_customers cm frequency_data (RecencyDatetime rs) =
     Inr [''Active Regular'' \<mapsto>
            length (filter (\<lambda>row. total_visits row > 6 \<and> recency_month row = Some cm)
              (join_data frequency_data rs)),
          ''Inactive Regular'' \<mapsto>
            length (filter (\<lambda>row. total_visits row > 6 \<and> recency_month row \<noteq> Some cm)
              (join_data frequency_data rs)),
          ''Active Occasional'' \<mapsto>
            length (filter (\<lambda>row. total_visits row \<le> 6 \<and> recency_month row = Some cm)
              (join_data frequency_data rs)),
          ''Inactive Occasional'' \<mapsto>
            length (filter (\<lambda>row. total_visits row \<le> 6 \<and> recency_month row \<noteq> Some cm)
              (join_data frequency_data rs))]"
proof -
  have unknown: "recency_month row = None"
    if "recency row = None" "row \<in> set (join_data frequency_data rs)"
    using that by (auto simp: join_data_def Let_def)
  have le: "(\<lambda>row. \<not> 6 < total_visits row \<and> Q row) = (\<lambda>row. total_visits row \<le> 6 \<and> Q row)"
    for Q :: "joined \<Rightarrow> bool"
    by (auto simp: not_less)
  show ?thesis
    using unknown
    by (auto simp: categorize_row_def categorize_customers_counts categories_def
        count_rows_def le not_less)
qed

lemma join_five:
  "join_data five_visits four_recencies =
     [\<lparr>customer = ''A'', month = 10, visits = 7, recency = Some (2024, 10, 1, 10, 0, 0),
       total_visits = 7, recency_month = Some 10\<rparr>,
      \<lparr>customer = ''B'', month = 9, visits = 7, recency = Some (2024, 9, 15, 14, 0, 0),
       total_visits = 7, recency_month = Some 9\<rparr>,
      \<lparr>customer = ''C'', month = 10, visits = 2, recency = Some (2024, 10, 2, 9, 30, 0),
       total_visits = 2, recency_month = Some 10\<rparr>,
      \<lparr>customer = ''D'', month = 9, visits = 1, recency = Some (2024, 9, 1, 8, 0, 0),
       total_visits = 1, recency_month = Some 9\<rparr>,
      \<lparr>customer = ''E'', month = 8, visits = 3, recency = None,
       total_visits = 3, recency_month = None\<rparr>]"
  by (simp add: join_data_def merge_left_def five_visits_def four_recencies_def month_of_def)

theorem categorize_thresholds_witness:
  "categorize_row 10
     \<lparr>customer = ''A'', month = 10, visits = 7, recency = Some (2024, 10, 1, 10, 0, 0),
      total_visits = 7, recency_month = Some 10\<rparr> initial_categories =
     increment ''Active Regular'' initial_categories \<and>
   categorize_row 10
     \<lparr>customer = ''B'', month = 9, visits = 7, recency = Some (2024, 9, 15, 14, 0, 0),
      total_visits = 7, recency_month = Some 9\<rparr> initial_categories =
     increment ''Inactive Regular'' initial_categories \<and>
   categorize_row 10
     \<lparr>customer = ''C'', month = 10, visits = 2, recency = Some (2024, 10, 2, 9, 30, 0),
      total_visits = 2, recency_month = Some 10\<rparr> initial_categories =
     increment ''Active Occasional'' initial_categories \<and>
   categorize_row 10
     \<lparr>customer = ''D'', month = 9, visits = 1, recency = Some (2024, 9, 1, 8, 0, 0),
      total_visits = 1, recency_month = Some 9\<rparr> initial_categories =
     increment ''Inactive Occasional'' initial_categories \<and>
   \<lparr>customer = ''E'', month = 8, visits = 3, recency = None,
    total_visits = 3, recency_month = None\<rparr> \<in> set (join_data five_visits four_recencies) \<and>
   categorize_row 10
     \<lparr>customer = ''E'', month = 8, visits = 3, recency = None,
      total_visits = 3, recency_month = None\<rparr> initial_categories =
     increment ''Inactive Occasional'' initial_categories \<and>
   categorize_customers 10 five_visits (RecencyDatetime four_recencies) =
     Inr [''Active Regular'' \<mapsto> 1, ''Inactive Regular'' \<mapsto> 1,
          ''Active Occasional'' \<mapsto> 1, ''Inactive Occasional'' \<mapsto> 2]"
  using
    categorize_thresholds [of
      "\<lparr>customer = ''A'', month = 10, visits = 7, recency = Some (2024, 10, 1, 10, 0, 0),
        total_visits = 7, recency_month = Some 10\<rparr>" 10 initial_categories
      five_visits four_recencies]
    categorize_thresholds [of
      "\<lparr>customer = ''B'', month = 9, visits = 7, recency = Some (2024, 9, 15, 14, 0, 0),
        total_visits = 7, recency_month = Some 9\<rparr>" 10 initial_categories
      five_visits four_recencies]
    categorize_thresholds [of
      "\<lparr>customer = ''C'', month = 10, visits = 2, recency = Some (2024, 10, 2, 9, 30, 0),
        total_visits = 2, recency_month = Some 10\<rparr>" 10 initial_categories
      five_visits four_recencies]
    categorize_thresholds [of
      "\<lparr>customer = ''D'', month = 9, visits = 1, recency = Some (2024, 9, 1, 8, 0, 0),
        total_visits = 1, recency_month = Some 9\<rparr>" 10 initial_categories
      five_visits four_recencies]
    categorize_thresholds [of
      "\<lparr>customer = ''E'', month = 8, visits = 3, recency = None,
        total_visits = 3, recency_month = None\<rparr>" 10 initial_categories
      five_visits four_recencies]
  by (simp add: join_five numeral_2_eq_2)

lemma strptime_two_months:
  "strptime_format ''09/15/24 02:00 PM'' = Some (2024, 9, 15, 14, 0, 0)"
  "strptime_format ''10/01/24 10:00 AM'' = Some (2024, 10, 1, 10, 0, 0)"
  by code_simp+

lemma count_rows_partition:
  "count_rows (\<lambda>row. P row \<and> Q row) rows + count_rows (\<lambda>row. P row \<and> \<not> Q row) rows +
   count_rows (\<lambda>row. \<not> P row \<and> Q row) rows + count_rows (\<lambda>row. \<not> P row \<and> \<not> Q row) rows =
   length rows"
  unfolding count_rows_def by (induction rows) auto

text \<open>
  Claim C2, on the code. The dictionary returned always has the four labels as its
  keys, and its counts add up to the number of rows of the joined data, which has one
  row for every (customer, month) pair of the visit table. For the table
  \<open>two_months\<close>, with the single customer \<^verbatim>\<open>1234\<close>, the pipeline of \<^verbatim>\<open>main\<close> finds two
  monthly visit rows and returns Active Occasional = 2: the one customer is counted
  twice.
\<close>

theorem categorize_counts_rows:
  "(\<exists>d. categorize_customers cm frequency_data (RecencyDatetime rs) = Inr d \<and>
      dom d = {''Active Regular'', ''Inactive Regular'', ''Active Occasional'',
               ''Inactive Occasional''} \<and>
      the (d ''Active Regular'') + the (d ''Inactive Regular'') +
      the (d ''Active Occasional'') + the (d ''Inactive Occasional'') =
        length (join_data frequency_data rs)) \<and>
   Customer_ID (create_customer_id two_months) = Some [''1234'', ''1234''] \<and>
   snd (calculate_monthly_visits strptime_format (create_customer_id two_months)) =
     Inr [(''1234'', 9, 1), (''1234'', 10, 1)] \<and>
   calculate_recency (fst (calculate_monthly_visits strptime_format (create_customer_id two_months))) =
     Inr (RecencyDatetime [(''1234'', Some (2024, 10, 1, 10, 0, 0))]) \<and>
   categorize_customers 10 [(''1234'', 9, 1), (''1234'', 10, 1)]
       (RecencyDatetime [(''1234'', Some (2024, 10, 1, 10, 0, 0))]) =
     Inr [''Active Regular'' \<mapsto> 0, ''Inactive Regular'' \<mapsto> 0,
          ''Active Occasional'' \<mapsto> 2, ''Inactive Occasional'' \<mapsto> 0]"
proof -
  let ?rows = "join_data frequency_data rs"
  let ?P = "\<lambda>row. total_visits row > 6" and ?Q = "\<lambda>row. recency_month row = Some cm"
  have A: "\<exists>d. categorize_customers cm frequency_data (RecencyDatetime rs) = Inr d \<and>
      dom d = {''Active Regular'', ''Inactive Regular'', ''Active Occasional'',
               ''Inactive Occasional''} \<and>
      the (d ''Active Regular'') + the (d ''Inactive Regular'') +
      the (d ''Active Occasional'') + the (d ''Inactive Occasional'') = length ?rows"
    using count_rows_partition [of ?P ?Q ?rows]
    by (auto simp: categorize_customers_counts categories_def)
  have ids: "Customer_ID (create_customer_id two_months) = Some [''1234'', ''1234'']"
    by (simp add: create_customer_id_column two_months_def format_dates_def
        customer_id_of_def isdigit_def)
  have pd: "Paid_Date (create_customer_id two_months) =
      ObjectCol [''09/15/24 02:00 PM'', ''10/01/24 10:00 AM'']"
    by (simp add: create_customer_id_def Let_def two_months_def)
  have B: "snd (calculate_monthly_visits strptime_format (create_customer_id two_months)) =
     Inr [(''1234'', 9, 1), (''1234'', 10, 1)]"
    by (simp add: calculate_monthly_visits_def Let_def ids pd to_datetime_def
        strptime_two_months dt_month_def month_of_def groupby_size_def group_keys_def
        List.map_filter_simps)
  have C: "calculate_recency (fst (calculate_monthly_visits strptime_format
        (create_customer_id two_months))) =
     Inr (RecencyDatetime [(''1234'', Some (2024, 10, 1, 10, 0, 0))])"
    by (simp add: calculate_monthly_visits_def calculate_recency_def Let_def ids pd
        to_datetime_def strptime_two_months group_cells_def)
  have D: "categorize_customers 10 [(''1234'', 9, 1), (''1234'', 10, 1)]
       (RecencyDatetime [(''1234'', Some (2024, 10, 1, 10, 0, 0))]) =
     Inr [''Active Regular'' \<mapsto> 0, ''Inactive Regular'' \<mapsto> 0,
          ''Active Occasional'' \<mapsto> 2, ''Inactive Occasional'' \<mapsto> 0]"
    by (simp add: categorize_customers_counts categories_def count_rows_def join_data_def
        merge_left_def month_of_def numeral_2_eq_2)
  from A ids B C D show ?thesis by blast
qed

subsection \<open>Monthly visits\<close>

lemma count_list_filter_eq:
  "count_list (filter P xs) x = (if P x then count_list xs x else 0)"
  by (induction xs) auto

lemma sum_counts_distinct:
  assumes "distinct ks" and "set ks = set xs"
  shows "sum_list (map (count_list xs) (filter P ks)) = length (filter P xs)"
proof -
  have "sum_list (map (count_list xs) (filter P ks)) = sum (count_list xs) (set (filter P ks))"
    using assms(1) by (simp add: sum_list_distinct_conv_sum_set)
  also have "\<dots> = sum (count_list (filter P xs)) {x \<in> set xs. P x}"
    using assms(2) by (intro sum.cong) (auto simp: count_list_filter_eq)
  also have "\<dots> = length (filter P xs)"
    by (rule sum_count_set) auto
  finally show ?thesis .
qed

lemma customer_visits_groupby_size:
  "customer_visits c (groupby_size rows) = length (filter (\<lambda>k. fst k = c) (group_keys rows))"
proof -
  let ?keys = "group_keys rows"
  have "customer_visits c (groupby_size rows) =
      sum_list (map (count_list ?keys) (filter (\<lambda>k. fst k = c) (sort (remdups ?keys))))"
    by (simp add: customer_visits_def groupby_size_def Let_def filter_map comp_def)
  also have "\<dots> = length (filter (\<lambda>k. fst k = c) ?keys)"
    by (rule sum_counts_distinct) simp_all
  finally show ?thesis .
qed

lemma filter_group_keys:
  "length (filter (\<lambda>k. fst k = c) (group_keys rows)) =
   length (filter (\<lambda>(c', m). c' = c \<and> m \<noteq> None) rows)"
  by (induction rows) (auto simp: group_keys_def List.map_filter_simps split: option.splits)

lemma filter_zip_dt_month:
  "length (filter (\<lambda>(c', m). c' = c \<and> m \<noteq> None) (zip ids (dt_month ts))) =
   length (filter (\<lambda>(c', t). c' = c \<and> t \<noteq> None) (zip ids ts))"
proof (induction ids arbitrary: ts)
  case Nil
  then show ?case by simp
next
  case (Cons i ids)
  then show ?case by (cases ts) (auto simp: dt_month_def)
qed

text \<open>
  Claim C8, as amended. When the table has its \<^verbatim>\<open>Customer ID\<close> column,
  \<^verbatim>\<open>calculate_monthly_visits\<close> returns a visit table in which, for every customer, the
  counts of all months add up to the number of that customer's rows whose \<^verbatim>\<open>Paid Date\<close>
  parses; a row whose date does not parse (\<^verbatim>\<open>NaT\<close>, so no month) is in no group and is
  not counted.
\<close>

theorem monthly_visits_sum:
  assumes "Customer_ID df = Some ids"
  shows "\<exists>monthly_visits.
     snd (calculate_monthly_visits strptime df) = Inr monthly_visits \<and>
     (\<forall>c. customer_visits c monthly_visits =
        length (filter (\<lambda>(c', t). c' = c \<and> t \<noteq> None)
          (zip ids (to_datetime strptime (Paid_Date df)))))"
proof -
  let ?ts = "to_datetime strptime (Paid_Date df)"
  have "snd (calculate_monthly_visits strptime df) = Inr (groupby_size (zip ids (dt_month ?ts)))"
    using assms by (simp add: calculate_monthly_visits_def Let_def)
  moreover have "customer_visits c (groupby_size (zip ids (dt_month ?ts))) =
      length (filter (\<lambda>(c', t). c' = c \<and> t \<noteq> None) (zip ids ?ts))" for c
    by (simp only: customer_visits_groupby_size filter_group_keys filter_zip_dt_month)
  ultimately show ?thesis by blast
qed

lemma strptime_unparsed: "strptime_format ''2024-10-01 10:00:00'' = None"
  by code_simp

theorem monthly_visits_sum_counterexample:
  "Customer_ID unparsed_row = Some [''1234''] \<and>
   snd (calculate_monthly_visits strptime_format unparsed_row) = Inr [] \<and>
   customer_visits ''1234'' [] \<noteq> count_list [''1234''] ''1234''"
  by (simp add: unparsed_row_def calculate_monthly_visits_def Let_def to_datetime_def
      strptime_unparsed dt_month_def groupby_size_def group_keys_def List.map_filter_simps
      customer_visits_def)

lemma strptime_five_rows:
  "strptime_format ''10/01/24 10:00 AM'' = Some (2024, 10, 1, 10, 0, 0)"
  "strptime_format ''09/15/24 02:00 PM'' = Some (2024, 9, 15, 14, 0, 0)"
  "strptime_format ''08/20/24 05:00 PM'' = Some (2024, 8, 20, 17, 0, 0)"
  "strptime_format [] = None"
  by code_simp+

theorem monthly_visits_sum_witness:
  "Customer_ID five_rows =
     Some [''1234'', ''1234'', ''08/20/24 05:00 PM|75.00|Cash'',
           ''08/20/24 05:00 PM|75.00|Cash'', ''1234''] \<and>
   snd (calculate_monthly_visits strptime_format five_rows) =
     Inr [(''08/20/24 05:00 PM|75.00|Cash'', 8, 2), (''1234'', 9, 1), (''1234'', 10, 1)] \<and>
   customer_visits ''1234''
     [(''08/20/24 05:00 PM|75.00|Cash'', 8, 2), (''1234'', 9, 1), (''1234'', 10, 1)] = 2 \<and>
   count_list [''1234'', ''1234'', ''08/20/24 05:00 PM|75.00|Cash'',
               ''08/20/24 05:00 PM|75.00|Cash'', ''1234''] ''1234'' = 3"
proof -
  have ids: "Customer_ID five_rows =
     Some [''1234'', ''1234'', ''08/20/24 05:00 PM|75.00|Cash'',
           ''08/20/24 05:00 PM|75.00|Cash'', ''1234'']"
    by (simp add: five_rows_def)
  have ts: "to_datetime strptime_format (Paid_Date five_rows) =
     [Some (2024, 10, 1, 10, 0, 0), Some (2024, 9, 15, 14, 0, 0),
      Some (2024, 8, 20, 17, 0, 0), Some (2024, 8, 20, 17, 0, 0), None]"
    by (simp add: five_rows_def to_datetime_def strptime_five_rows)
  have visits: "snd (calculate_monthly_visits strptime_format five_rows) =
     Inr [(''08/20/24 05:00 PM|75.00|Cash'', 8, 2), (''1234'', 9, 1), (''1234'', 10, 1)]"
    by (simp add: calculate_monthly_visits_def Let_def ids ts dt_month_def month_of_def
        groupby_size_def group_keys_def List.map_filter_simps numeral_2_eq_2)
  from monthly_visits_sum [OF ids, of strptime_format] visits
  have "customer_visits ''1234''
     [(''08/20/24 05:00 PM|75.00|Cash'', 8, 2), (''1234'', 9, 1), (''1234'', 10, 1)] =
     length (filter (\<lambda>(c', t). c' = ''1234'' \<and> t \<noteq> None)
       (zip [''1234'', ''1234'', ''08/20/24 05:00 PM|75.00|Cash'',
             ''08/20/24 05:00 PM|75.00|Cash'', ''1234'']
          (to_datetime strptime_format (Paid_Date five_rows))))"
    by auto
  then have "customer_visits ''1234''
     [(''08/20/24 05:00 PM|75.00|Cash'', 8, 2), (''1234'', 9, 1), (''1234'', 10, 1)] = 2"
    by (simp add: ts)
  with ids visits show ?thesis by simp
qed

subsection \<open>Recency\<close>

lemma finite_Some_members: "finite {t. Some t \<in> set cells}"
proof -
  have "{t. Some t \<in> set cells} = Some -` set cells" by auto
  then show ?thesis by (simp add: finite_vimageI)
qed

lemma latest_Max:
  "latest cells =
     (if {t. Some t \<in> set cells} = {} then None else Some (Max {t. Some t \<in> set cells}))"
proof (induction cells rule: latest.induct)
  case 1
  then show ?case by simp
next
  case (2 ts)
  then show ?case by simp
next
  case (3 t ts)
  define A where "A = {u. Some u \<in> set ts}"
  have ins: "{u. Some u \<in> set (Some t # ts)} = insert t A"
    unfolding A_def by auto
  have fin: "finite A"
    unfolding A_def by (rule finite_Some_members)
  have IH: "latest ts = (if A = {} then None else Some (Max A))"
    unfolding A_def by (rule 3)
  show ?case
  proof (cases "A = {}")
    case True
    then have "latest (Some t # ts) = Some t"
      using IH by simp
    moreover have "Max (insert t A) = t"
      using True by simp
    ultimately show ?thesis
      unfolding ins by simp
  next
    case False
    then have "latest (Some t # ts) = Some (max t (Max A))"
      using IH by simp
    moreover have "Max (insert t A) = max t (Max A)"
      using fin False by (rule Max_insert)
    ultimately show ?thesis
      unfolding ins by simp
  qed
qed

lemma Some_group_cells:
  "{t. Some t \<in> set (group_cells c ids ts)} = parsed_stamps c ids ts"
  by (auto simp: group_cells_def parsed_stamps_def image_iff)

lemma calculate_recency_after_visits:
  assumes "Customer_ID df = Some ids"
  shows "calculate_recency (fst (calculate_monthly_visits strptime df)) =
     Inr (RecencyDatetime
       (map (\<lambda>c. (c, latest (group_cells c ids (to_datetime strptime (Paid_Date df)))))
         (sort (remdups ids))))"
  using assms by (simp add: calculate_recency_def calculate_monthly_visits_def Let_def)

text \<open>
  Claim C7, as amended. After \<^verbatim>\<open>calculate_monthly_visits\<close> has parsed the dates of a
  table with customer identities, \<^verbatim>\<open>calculate_recency\<close> returns one row for every
  customer of the table, without exception: the latest of the customer's time stamps
  that parsed, or, if none of them parsed, the missing value \<^verbatim>\<open>NaT\<close>. The customer is
  present in the result in both cases.
\<close>

theorem recency_latest:
  assumes "Customer_ID df = Some ids"
  shows "\<exists>rows.
     calculate_recency (fst (calculate_monthly_visits strptime df)) = Inr (RecencyDatetime rows) \<and>
     map fst rows = sort (remdups ids) \<and>
     (\<forall>c \<in> set ids.
        (parsed_stamps c ids (to_datetime strptime (Paid_Date df)) = {} \<longrightarrow>
           (c, None) \<in> set rows) \<and>
        (parsed_stamps c ids (to_datetime strptime (Paid_Date df)) \<noteq> {} \<longrightarrow>
           (c, Some (Max (parsed_stamps c ids (to_datetime strptime (Paid_Date df))))) \<in> set rows))"
proof -
  let ?ts = "to_datetime strptime (Paid_Date df)"
  let ?rows = "map (\<lambda>c. (c, latest (group_cells c ids ?ts))) (sort (remdups ids))"
  have "calculate_recency (fst (calculate_monthly_visits strptime df)) =
      Inr (RecencyDatetime ?rows)"
    by (rule calculate_recency_after_visits [OF assms])
  moreover have "map fst ?rows = sort (remdups ids)"
    by (simp add: comp_def)
  moreover have "\<forall>c \<in> set ids.
        (parsed_stamps c ids ?ts = {} \<longrightarrow> (c, None) \<in> set ?rows) \<and>
        (parsed_stamps c ids ?ts \<noteq> {} \<longrightarrow> (c, Some (Max (parsed_stamps c ids ?ts))) \<in> set ?rows)"
  proof (intro ballI conjI impI)
    fix c
    assume c: "c \<in> set ids"
    have eq: "latest (group_cells c ids ?ts) =
        (if parsed_stamps c ids ?ts = {} then None else Some (Max (parsed_stamps c ids ?ts)))"
      by (simp only: latest_Max Some_group_cells)
    from c have "c \<in> set (sort (remdups ids))" by simp
    then have mem: "(c, latest (group_cells c ids ?ts)) \<in> set ?rows"
      unfolding set_map by (rule imageI)
    {
      assume "parsed_stamps c ids ?ts = {}"
      with eq have "latest (group_cells c ids ?ts) = None" by simp
      with mem show "(c, None) \<in> set ?rows" by (simp only:)
    }
    {
      assume "parsed_stamps c ids ?ts \<noteq> {}"
      with eq have "latest (group_cells c ids ?ts) = Some (Max (parsed_stamps c ids ?ts))"
        by simp
      with mem show "(c, Some (Max (parsed_stamps c ids ?ts))) \<in> set ?rows" by (simp only:)
    }
  qed
  ultimately show ?thesis by blast
qed

theorem recency_latest_counterexample:
  "Customer_ID unparsed_row = Some [''1234''] \<and>
   to_datetime strptime_format (Paid_Date unparsed_row) = [None] \<and>
   calculate_recency (fst (calculate_monthly_visits strptime_format unparsed_row)) =
     Inr (RecencyDatetime [(''1234'', None)])"
  by (simp add: unparsed_row_def calculate_recency_def calculate_monthly_visits_def Let_def
      to_datetime_def strptime_unparsed group_cells_def)

theorem recency_latest_witness:
  "Customer_ID five_rows =
     Some [''1234'', ''1234'', ''08/20/24 05:00 PM|75.00|Cash'',
           ''08/20/24 05:00 PM|75.00|Cash'', ''1234''] \<and>
   to_datetime strptime_format (Paid_Date five_rows) =
     [Some (2024, 10, 1, 10, 0, 0), Some (2024, 9, 15, 14, 0, 0),
      Some (2024, 8, 20, 17, 0, 0), Some (2024, 8, 20, 17, 0, 0), None] \<and>
   parsed_stamps ''1234''
     [''1234'', ''1234'', ''08/20/24 05:00 PM|75.00|Cash'',
      ''08/20/24 05:00 PM|75.00|Cash'', ''1234'']
     (to_datetime strptime_format (Paid_Date five_rows)) \<noteq> {} \<and>
   Max (parsed_stamps ''1234''
     [''1234'', ''1234'', ''08/20/24 05:00 PM|75.00|Cash'',
      ''08/20/24 05:00 PM|75.00|Cash'', ''1234'']
     (to_datetime strptime_format (Paid_Date five_rows))) = (2024, 10, 1, 10, 0, 0) \<and>
   calculate_recency (fst (calculate_monthly_visits strptime_format five_rows)) =
     Inr (RecencyDatetime
       [(''08/20/24 05:00 PM|75.00|Cash'', Some (2024, 8, 20, 17, 0, 0)),
        (''1234'', Some (2024, 10, 1, 10, 0, 0))])"
proof -
  let ?ids = "[''1234'', ''1234'', ''08/20/24 05:00 PM|75.00|Cash'',
      ''08/20/24 05:00 PM|75.00|Cash'', ''1234'']"
  let ?ts = "to_datetime strptime_format (Paid_Date five_rows)"
  have ids: "Customer_ID five_rows = Some ?ids"
    by (simp add: five_rows_def)
  have ts: "?ts =
     [Some (2024, 10, 1, 10, 0, 0), Some (2024, 9, 15, 14, 0, 0),
      Some (2024, 8, 20, 17, 0, 0), Some (2024, 8, 20, 17, 0, 0), None]"
    by (simp add: five_rows_def to_datetime_def strptime_five_rows)
  have "(2024, 10, 1, 10, 0, 0) \<in> parsed_stamps ''1234'' ?ids ?ts"
    unfolding ts by (simp add: parsed_stamps_def)
  then have ne: "parsed_stamps ''1234'' ?ids ?ts \<noteq> {}"
    by blast
  have conc: "calculate_recency (fst (calculate_monthly_visits strptime_format five_rows)) =
     Inr (RecencyDatetime
       [(''08/20/24 05:00 PM|75.00|Cash'', Some (2024, 8, 20, 17, 0, 0)),
        (''1234'', Some (2024, 10, 1, 10, 0, 0))])"
    unfolding calculate_recency_after_visits [OF ids] ts
    by (simp add: group_cells_def)
  from recency_latest [OF ids, of strptime_format]
  obtain rows where
    rows: "calculate_recency (fst (calculate_monthly_visits strptime_format five_rows)) =
        Inr (RecencyDatetime rows)"
    and mem: "\<forall>c \<in> set ?ids.
        (parsed_stamps c ?ids ?ts = {} \<longrightarrow> (c, None) \<in> set rows) \<and>
        (parsed_stamps c ?ids ?ts \<noteq> {} \<longrightarrow> (c, Some (Max (parsed_stamps c ?ids ?ts))) \<in> set rows)"
    by blast
  from rows conc have "rows =
       [(''08/20/24 05:00 PM|75.00|Cash'', Some (2024, 8, 20, 17, 0, 0)),
        (''1234'', Some (2024, 10, 1, 10, 0, 0))]"
    by simp
  moreover from mem ne have "(''1234'', Some (Max (parsed_stamps ''1234'' ?ids ?ts))) \<in> set rows"
    by simp
  ultimately have "Max (parsed_stamps ''1234'' ?ids ?ts) = (2024, 10, 1, 10, 0, 0)"
    by simp
  with ids ts ne conc show ?thesis by simp
qed

subsection \<open>Monetary totals\<close>

lemma sum_list_numbers: "sum_list (numbers cs) = sum_list (map contribution cs)"
  by (induction cs rule: numbers.induct) (simp_all add: contribution_def)

lemma groupby_sum_coerced:
  "groupby_sum (map (\<lambda>(c, a). (c, to_numeric parse a)) data) =
     map (\<lambda>c. (c, customer_total parse c data)) (sort (remdups (map fst data)))"
proof -
  have fst_eq: "map fst (map (\<lambda>(c, a). (c, to_numeric parse a)) data) = map fst data"
    by (induction data) auto
  have total: "sum_list (numbers (map snd (filter (\<lambda>row. fst row = c)
        (map (\<lambda>(c, a). (c, to_numeric parse a)) data)))) = customer_total parse c data" for c
    unfolding sum_list_numbers customer_total_def
    by (induction data) auto
  show ?thesis
    unfolding groupby_sum_def fst_eq total ..
qed



lemma monetary_data_eq:
  "monetary_data (calculate_monetary_value parse self) =
     Some (sort_values_desc
       (map (\<lambda>c. (c, customer_total parse c (all_data self)))
         (sort (remdups (map fst (all_data self))))))"
  by (simp add: calculate_monetary_value_def Let_def groupby_sum_coerced)






subsection \<open>What the methods do to the table they are given\<close>

text \<open>
  Claim C10, as amended. \<^verbatim>\<open>create_customer_id\<close> returns a copy that holds the ingested
  columns as they were, and \<^verbatim>\<open>MonetaryValue\<close> keeps a copy of its own, of which
  \<^verbatim>\<open>calculate_monetary_value\<close> coerces the amounts; neither assigns to the table it is
  given, and \<^verbatim>\<open>calculate_recency\<close> only reads. \<^verbatim>\<open>calculate_monthly_visits\<close> does assign
  to the table it is given: after the call its \<^verbatim>\<open>Paid Date\<close> column holds the parsed time
  stamps (\<^verbatim>\<open>NaT\<close> where a text does not parse) and it has a \<^verbatim>\<open>Month\<close> column; a text
  column has been replaced and a missing \<^verbatim>\<open>Month\<close> column added. The columns \<^verbatim>\<open>Amount\<close>,
  \<^verbatim>\<open>Type\<close>, \<^verbatim>\<open>Last 4 Card Digits\<close>, \<^verbatim>\<open>last_4_card_digits\<close> and \<^verbatim>\<open>Customer ID\<close> are as before.
\<close>

theorem table_after_call:
  "Paid_Date (create_customer_id df) = Paid_Date df \<and>
   Amount (create_customer_id df) = Amount df \<and>
   Type (create_customer_id df) = Type df \<and>
   Last_4_Card_Digits (create_customer_id df) = Last_4_Card_Digits df \<and>
   Month (create_customer_id df) = Month df \<and>
   all_data (MonetaryValue_init data) = data \<and>
   map fst (all_data (calculate_monetary_value parse self)) = map fst (all_data self) \<and>
   Amount (fst (calculate_monthly_visits strptime df)) = Amount df \<and>
   Type (fst (calculate_monthly_visits strptime df)) = Type df \<and>
   Last_4_Card_Digits (fst (calculate_monthly_visits strptime df)) = Last_4_Card_Digits df \<and>
   last_4_card_digits (fst (calculate_monthly_visits strptime df)) = last_4_card_digits df \<and>
   Customer_ID (fst (calculate_monthly_visits strptime df)) = Customer_ID df \<and>
   Paid_Date (fst (calculate_monthly_visits strptime df)) =
     DatetimeCol (to_datetime strptime (Paid_Date df)) \<and>
   Month (fst (calculate_monthly_visits strptime df)) =
     Some (dt_month (to_datetime strptime (Paid_Date df))) \<and>
   (\<forall>texts. Paid_Date df = ObjectCol texts \<longrightarrow>
      Paid_Date (fst (calculate_monthly_visits strptime df)) \<noteq> Paid_Date df) \<and>
   (Month df = None \<longrightarrow> Month (fst (calculate_monthly_visits strptime df)) \<noteq> Month df)"
proof -
  have "map fst (map (\<lambda>(c, a). (c, to_numeric parse a)) xs) = map fst xs"
    for xs :: "(string \<times> amount_cell) list"
    by (induction xs) auto
  then show ?thesis
    by (simp add: create_customer_id_def calculate_monthly_visits_def Let_def
        MonetaryValue_init_def calculate_monetary_value_def)
qed

text \<open>The table \<open>two_months\<close> with its identities, passed to \<^verbatim>\<open>calculate_monthly_visits\<close>.\<close>

theorem table_after_call_counterexample:
  "Paid_Date (create_customer_id two_months) =
     ObjectCol [''09/15/24 02:00 PM'', ''10/01/24 10:00 AM''] \<and>
   Month (create_customer_id two_months) = None \<and>
   Paid_Date (fst (calculate_monthly_visits strptime_format (create_customer_id two_months))) =
     DatetimeCol [Some (2024, 9, 15, 14, 0, 0), Some (2024, 10, 1, 10, 0, 0)] \<and>
   Month (fst (calculate_monthly_visits strptime_format (create_customer_id two_months))) =
     Some [Some 9, Some 10] \<and>
   fst (calculate_monthly_visits strptime_format (create_customer_id two_months)) \<noteq>
     create_customer_id two_months"
proof -
  have pd: "Paid_Date (create_customer_id two_months) =
      ObjectCol [''09/15/24 02:00 PM'', ''10/01/24 10:00 AM'']"
    and mo: "Month (create_customer_id two_months) = None"
    by (simp_all add: create_customer_id_def Let_def two_months_def)
  have after: "Paid_Date (fst (calculate_monthly_visits strptime_format
        (create_customer_id two_months))) =
      DatetimeCol [Some (2024, 9, 15, 14, 0, 0), Some (2024, 10, 1, 10, 0, 0)]"
    "Month (fst (calculate_monthly_visits strptime_format (create_customer_id two_months))) =
      Some [Some 9, Some 10]"
    by (simp_all add: calculate_monthly_visits_def Let_def pd to_datetime_def
        strptime_two_months dt_month_def month_of_def)
  from after(2) mo have "fst (calculate_monthly_visits strptime_format
      (create_customer_id two_months)) \<noteq> create_customer_id two_months"
    by auto
  with pd mo after show ?thesis by simp
qed

theorem table_after_call_witness:
  "Paid_Date (create_customer_id two_months) =
     ObjectCol [''09/15/24 02:00 PM'', ''10/01/24 10:00 AM''] \<and>
   Month (create_customer_id two_months) = None \<and>
   Paid_Date (fst (calculate_monthly_visits strptime_format (create_customer_id two_months))) \<noteq>
     Paid_Date (create_customer_id two_months) \<and>
   Month (fst (calculate_monthly_visits strptime_format (create_customer_id two_months))) \<noteq>
     Month (create_customer_id two_months) \<and>
   Amount (fst (calculate_monthly_visits strptime_format (create_customer_id two_months))) =
     [''50.00'', ''25.00''] \<and>
   Customer_ID (fst (calculate_monthly_visits strptime_format (create_customer_id two_months))) =
     Some [''1234'', ''1234'']"
proof -
  have pd: "Paid_Date (create_customer_id two_months) =
      ObjectCol [''09/15/24 02:00 PM'', ''10/01/24 10:00 AM'']"
    and mo: "Month (create_customer_id two_months) = None"
    and am: "Amount (create_customer_id two_months) = [''50.00'', ''25.00'']"
    by (simp_all add: create_customer_id_def Let_def two_months_def)
  have ids: "Customer_ID (create_customer_id two_months) = Some [''1234'', ''1234'']"
    by (simp add: create_customer_id_column two_months_def format_dates_def
        customer_id_of_def isdigit_def)
  from table_after_call [of "create_customer_id two_months" "[]" decimal_text
      "MonetaryValue_init []" strptime_format] pd mo am ids
  show ?thesis by simp
qed

subsection \<open>Top spenders\<close>

lemma top_n_examples:
  "py_int (float_mul (py_float 5) (float_div 40 100)) = 2"
  "py_int (float_mul (py_float 100) (float_div 29 100)) = 28"
  "float_div 29 100 = 5224175567749775 / 18014398509481984"
  "float_mul (py_float 100) (float_div 29 100) = 8162774324609023 / 281474976710656"
  by code_simp+

lemma float_zero: "py_int (float_mul n (float_div 0 100)) = 0"
  by (simp add: float_div_def float_mul_def round_double_def py_int_def)

lemma identify_top_n:
  assumes "monetary_data self = Some md" and "length md = n"
  shows "identify_top_spending_customers self p =
     Inr (head (py_int (float_mul (py_float n) (float_div p 100))) md)"
  using assms by (simp add: identify_top_spending_customers_def)

lemma length_monetary_data:
  "monetary_data (calculate_monetary_value parse self) = Some md \<Longrightarrow>
   length md = length (remdups (map fst (all_data self)))"
  by (auto simp: monetary_data_eq sort_values_desc_def)

lemma hundred_distinct: "distinct (map fst hundred_customers)"
proof -
  have "distinct (map pad2 [0 ..< 100])" by code_simp
  then show ?thesis by (simp add: hundred_customers_def comp_def)
qed

lemma test_monetary_data:
  "monetary_data (calculate_monetary_value parse (MonetaryValue_init test_data)) =
     Some [(''C1'', 1500), (''C5'', 1200), (''C2'', 800), (''C3'', 300), (''C4'', 50)]"
  by (simp add: monetary_data_eq MonetaryValue_init_def test_data_def customer_total_def
      to_numeric_def contribution_def sort_values_desc_def)

text \<open>
  Claim C5, on the code. The selection returns the first \<open>top_n\<close> rows of the sorted
  table, where \<open>top_n\<close> is \<^verbatim>\<open>int(len(self.monetary_data) * (top_percent / 100))\<close> in
  floating-point arithmetic. For 0 percent that is no row, and for the five customers
  of the test at 40 percent it is the two rows headed by the customer with 1500. For
  one hundred customers at 29 percent it is 28 rows, although \<open>\<lfloor>100 \<times> 29 / 100\<rfloor> = 29\<close>:
  \<^verbatim>\<open>29 / 100\<close> is the float \<open>5224175567749775 / 2\<^sup>5\<^sup>4\<close>, just below 0.29, its product with
  100 rounds to \<open>8162774324609023 / 2\<^sup>4\<^sup>8\<close>, which is 28.999999999999996, and \<^verbatim>\<open>int\<close>
  cuts it to 28.
\<close>

theorem top_spenders_float:
  "identify_top_spending_customers (calculate_monetary_value parse self) 0 = Inr [] \<and>
   identify_top_spending_customers
       (calculate_monetary_value parse (MonetaryValue_init test_data)) 40 =
     Inr [(''C1'', 1500), (''C5'', 1200)] \<and>
   (\<exists>md rows.
      monetary_data (calculate_monetary_value parse (MonetaryValue_init hundred_customers))
        = Some md \<and>
      length md = 100 \<and>
      identify_top_spending_customers
        (calculate_monetary_value parse (MonetaryValue_init hundred_customers)) 29 = Inr rows \<and>
      rows = take 28 md \<and> length rows = 28) \<and>
   float_div 29 100 = 5224175567749775 / 18014398509481984 \<and>
   float_mul (py_float 100) (float_div 29 100) = 8162774324609023 / 281474976710656 \<and>
   \<lfloor>100 * 29 / 100 :: rat\<rfloor> = 29"
proof -
  have A: "identify_top_spending_customers (calculate_monetary_value parse self) 0 = Inr []"
    by (simp add: identify_top_spending_customers_def monetary_data_eq float_zero head_def)
  have B: "identify_top_spending_customers
       (calculate_monetary_value parse (MonetaryValue_init test_data)) 40 =
     Inr [(''C1'', 1500), (''C5'', 1200)]"
    using identify_top_n [OF test_monetary_data, of 5 parse 40]
    by (simp add: top_n_examples(1) head_def)
  obtain md where md:
    "monetary_data (calculate_monetary_value parse (MonetaryValue_init hundred_customers)) = Some md"
    by (simp add: monetary_data_eq)
  have "all_data (MonetaryValue_init hundred_customers) = hundred_customers"
    by (simp add: MonetaryValue_init_def)
  with length_monetary_data [OF md] hundred_distinct have len: "length md = 100"
    by (simp add: distinct_remdups_id hundred_customers_def)
  have C: "identify_top_spending_customers
        (calculate_monetary_value parse (MonetaryValue_init hundred_customers)) 29 =
      Inr (take 28 md)"
    using identify_top_n [OF md len, of 29] len by (simp add: top_n_examples(2) head_def)
  have D: "\<lfloor>100 * 29 / 100 :: rat\<rfloor> = 29"
    by simp
  from A B md len C D top_n_examples(3,4) show ?thesis by simp
qed

end
